theory Spec2Isabelle
  imports Complex_Main
begin

section \<open>Python values, arrays and exceptions\<close>

text \<open>
  A numpy array is its shape together with the entry at every index. Entries are real
  numbers: rounding, infinities and NaN of IEEE floats are not part of this model.
  Indices outside the shape are never read by the operations below.
\<close>

record ndarray =
  shape :: "nat list"
  elems :: "nat list \<Rightarrow> real"

text \<open>
  The Python objects that the markers pass around. \<open>PObj\<close> is an opaque object known
  only by its identity (an image, the estimator instance). A dictionary keeps its items in
  insertion order; all dictionaries of the source have string keys.
\<close>

datatype pyval =
    PNone
  | PBool bool
  | PInt int
  | PFloat real
  | PStr string
  | PList "pyval list"
  | PDict "(string \<times> pyval) list"
  | PArr ndarray
  | PObj nat

datatype type_error =
    UnexpectedKeyword string
  | MultipleValues string
  | MissingArgument string
  | TooManyPositional
  | Unhashable
  | NotSubscriptable

datatype error =
    ValueError string
  | KeyError string
  | TypeError type_error
  | IndexError string
  | ZeroDivisionError
  | External string

text \<open>What the source reports: \<open>logger.info\<close> lines and calls of a registry metric.\<close>

datatype event =
    Info string
  | InfoRemovingCache pyval
  | InfoUsingCache pyval
  | MetricCall string

text \<open>\<open>d[k]\<close>: a missing key of a dictionary raises \<open>KeyError\<close>.\<close>

fun getitem :: "pyval \<Rightarrow> string \<Rightarrow> error + pyval" where
  "getitem (PDict kvs) k = (case map_of kvs k of Some v \<Rightarrow> Inr v | None \<Rightarrow> Inl (KeyError k))"
| "getitem (PArr a) k = Inl (IndexError k)"
| "getitem v k = Inl (TypeError NotSubscriptable)"

section \<open>Array operations used by the phase-coherence marker\<close>

text \<open>\<open>a[:, None, :]\<close>: a new axis of length 1 at position 1; needs two axes at least.\<close>

definition index_newaxis_mid :: "ndarray \<Rightarrow> error + ndarray" where
  "index_newaxis_mid a =
     (case shape a of
        s0 # s1 # rest \<Rightarrow>
          Inr \<lparr>shape = s0 # 1 # s1 # rest,
               elems = (\<lambda>idx. elems a (take 1 idx @ drop 2 idx))\<rparr>
      | _ \<Rightarrow> Inl (IndexError ''too many indices for array''))"

text \<open>\<open>a[:, :, None]\<close>: a new axis of length 1 at position 2.\<close>

definition index_newaxis_last :: "ndarray \<Rightarrow> error + ndarray" where
  "index_newaxis_last a =
     (case shape a of
        s0 # s1 # rest \<Rightarrow>
          Inr \<lparr>shape = s0 # s1 # 1 # rest,
               elems = (\<lambda>idx. elems a (take 2 idx @ drop 3 idx))\<rparr>
      | _ \<Rightarrow> Inl (IndexError ''too many indices for array''))"

text \<open>
  numpy broadcasting of two shapes of the same rank: along every axis the lengths are
  equal or one of them is 1.
\<close>

fun broadcast_shapes :: "nat list \<Rightarrow> nat list \<Rightarrow> nat list option" where
  "broadcast_shapes [] [] = Some []"
| "broadcast_shapes (d # ds) (e # es) =
     (case broadcast_shapes ds es of
        None \<Rightarrow> None
      | Some r \<Rightarrow>
          if d = e then Some (d # r)
          else if d = 1 then Some (e # r)
          else if e = 1 then Some (d # r)
          else None)"
| "broadcast_shapes _ _ = None"

text \<open>The index read from an operand: position 0 along every axis of length 1.\<close>

fun broadcast_index :: "nat list \<Rightarrow> nat list \<Rightarrow> nat list" where
  "broadcast_index (d # ds) (i # is) = (if d = 1 then 0 else i) # broadcast_index ds is"
| "broadcast_index _ _ = []"

text \<open>
  \<open>a - b\<close> on arrays. Shapes of different rank are padded on the left with 1 by numpy;
  the marker only subtracts arrays of equal rank, so padding is written for completeness.
\<close>

definition pad_shape :: "nat \<Rightarrow> nat list \<Rightarrow> nat list" where
  "pad_shape n s = replicate (n - length s) 1 @ s"

definition np_subtract :: "ndarray \<Rightarrow> ndarray \<Rightarrow> error + ndarray" where
  "np_subtract a b =
     (let n = max (length (shape a)) (length (shape b));
          sa = pad_shape n (shape a);
          sb = pad_shape n (shape b)
      in case broadcast_shapes sa sb of
           None \<Rightarrow> Inl (ValueError ''operands could not be broadcast together'')
         | Some s \<Rightarrow>
             Inr \<lparr>shape = s,
                  elems = (\<lambda>idx.
                    elems a (drop (n - length (shape a)) (broadcast_index sa idx))
                    - elems b (drop (n - length (shape b)) (broadcast_index sb idx)))\<rparr>)"

definition np_cos :: "ndarray \<Rightarrow> ndarray" where
  "np_cos a = \<lparr>shape = shape a, elems = (\<lambda>idx. cos (elems a idx))\<rparr>"

text \<open>Line 192: \<open>iphc = np.cos(phi[:, None, :] - phi[:, :, None])\<close>.\<close>

definition phase_coherence :: "ndarray \<Rightarrow> error + ndarray" where
  "phase_coherence phi =
     (case index_newaxis_mid phi of
        Inl e \<Rightarrow> Inl e
      | Inr a \<Rightarrow>
          (case index_newaxis_last phi of
             Inl e \<Rightarrow> Inl e
           | Inr b \<Rightarrow>
               (case np_subtract a b of
                  Inl e \<Rightarrow> Inl e
                | Inr d \<Rightarrow> Inr (np_cos d))))"

section \<open>The phase-coherence marker\<close>

text \<open>
  The attributes set by \<open>InstantPhaseConnectivityBase.__init__\<close>; \<open>base\<close> is whatever
  the constructor of the external base class \<open>BaseMarker\<close> sets up.
\<close>

record 'b ipc_marker =
  highpass :: real
  lowpass :: real
  order :: int
  tr :: "real option"
  masks :: pyval
  base :: 'b

text \<open>
  \<open>raise_error(msg)\<close> of the external utilities raises \<open>ValueError(msg)\<close>. The four
  checks run in the order of the source, before \<open>super().__init__(on="BOLD", name=name)\<close>,
  which is the parameter \<open>base_init\<close>.
\<close>

definition IPC_init ::
  "(string \<Rightarrow> pyval \<Rightarrow> error + 'b) \<Rightarrow> real \<Rightarrow> real \<Rightarrow> int \<Rightarrow> pyval \<Rightarrow> real option \<Rightarrow> pyval
     \<Rightarrow> error + 'b ipc_marker" where
  "IPC_init base_init hp lp ord mks t nm =
     (if hp < 0 then Inl (ValueError ''Highpass must be positive or 0'')
      else if lp \<le> 0 then Inl (ValueError ''Lowpass must be positive'')
      else if ord \<le> 0 then Inl (ValueError ''Order must be positive'')
      else if hp \<ge> lp then Inl (ValueError ''Highpass must be lower than lowpass'')
      else
        (case base_init ''BOLD'' nm of
           Inl e \<Rightarrow> Inl e
         | Inr b \<Rightarrow>
             Inr \<lparr>highpass = hp, lowpass = lp, order = ord, tr = t, masks = mks, base = b\<rparr>))"

text \<open>
  The external collaborators of \<open>InstantPhaseConnectivityBase.compute\<close>: the aggregation of the concrete subclass,
  \<open>scipy.stats.zscore(_, axis=0)\<close>, the repetition time read from the image header
  (\<open>input["data"].header.get_zooms()\<close>), nilearn's Butterworth filter and
  \<open>np.angle(scipy.signal.hilbert(_, axis=0))\<close>. Each may raise.
\<close>

record 'b ipc_env =
  aggregate :: "'b ipc_marker \<Rightarrow> pyval \<Rightarrow> pyval \<Rightarrow> error + pyval"
  zscore :: "pyval \<Rightarrow> error + ndarray"
  header_zooms :: "pyval \<Rightarrow> error + real list"
  butterworth :: "ndarray \<Rightarrow> real \<Rightarrow> real \<Rightarrow> real \<Rightarrow> int \<Rightarrow> error + ndarray"
  hilbert_angle :: "ndarray \<Rightarrow> error + ndarray"

text \<open>Lines 172 to 175: the repetition time, from the marker or from the header.\<close>

definition get_tr :: "'b ipc_env \<Rightarrow> 'b ipc_marker \<Rightarrow> pyval \<Rightarrow> error + real" where
  "get_tr env self inp =
     (case tr self of
        Some t \<Rightarrow> Inr t
      | None \<Rightarrow>
          (case getitem inp ''data'' of
             Inl e \<Rightarrow> Inl e
           | Inr img \<Rightarrow>
               (case header_zooms env img of
                  Inl e \<Rightarrow> Inl e
                | Inr zs \<Rightarrow>
                    if 3 < length zs then Inr (zs ! 3)
                    else Inl (IndexError ''tuple index out of range''))))"

text \<open>
  Lines 165 to 188: aggregation, z-score, filter and Hilbert phase. The result is the inner
  aggregation dictionary (read again when the result is packaged) and the phase matrix.
\<close>

definition conditioned_phase ::
  "'b ipc_env \<Rightarrow> 'b ipc_marker \<Rightarrow> pyval \<Rightarrow> pyval \<Rightarrow> error + (pyval \<times> ndarray)" where
  "conditioned_phase env self inp extra_input =
     (case aggregate env self inp extra_input of
        Inl e \<Rightarrow> Inl e
      | Inr aggregation \<Rightarrow>
     (case getitem aggregation ''aggregation'' of
        Inl e \<Rightarrow> Inl e
      | Inr agg \<Rightarrow>
     (case getitem agg ''data'' of
        Inl e \<Rightarrow> Inl e
      | Inr roi_data \<Rightarrow>
     (case zscore env roi_data of
        Inl e \<Rightarrow> Inl e
      | Inr zscore_roi_data \<Rightarrow>
     (case get_tr env self inp of
        Inl e \<Rightarrow> Inl e
      | Inr t \<Rightarrow>
     if t = 0 then Inl ZeroDivisionError
     else
     (case butterworth env zscore_roi_data (1 / t) (lowpass self) (highpass self) (order self) of
        Inl e \<Rightarrow> Inl e
      | Inr filtered_data \<Rightarrow>
     (case hilbert_angle env filtered_data of
        Inl e \<Rightarrow> Inl e
      | Inr phi \<Rightarrow> Inr (agg, phi))))))))"

text \<open>\<open>InstantPhaseConnectivityBase.compute\<close>.\<close>

definition IPC_compute :: "'b ipc_env \<Rightarrow> 'b ipc_marker \<Rightarrow> pyval \<Rightarrow> pyval \<Rightarrow> error + pyval" where
  "IPC_compute env self inp extra_input =
     (case conditioned_phase env self inp extra_input of
        Inl e \<Rightarrow> Inl e
      | Inr (agg, phi) \<Rightarrow>
     (case phase_coherence phi of
        Inl e \<Rightarrow> Inl e
      | Inr iphc \<Rightarrow>
     (case getitem agg ''col_names'' of
        Inl e \<Rightarrow> Inl e
      | Inr names \<Rightarrow>
          Inr (PDict [(''fc'',
                 PDict [(''data'', PArr iphc),
                        (''col_names'', names),
                        (''row_names'', names)])]))))"


text \<open>An array given by its rows, for concrete inputs.\<close>

definition of_rows :: "real list list \<Rightarrow> ndarray" where
  "of_rows rows =
     \<lparr>shape = [length rows, length (hd rows)],
      elems = (\<lambda>idx. rows ! (idx ! 0) ! (idx ! 1))\<rparr>"

section \<open>The graph-metric marker\<close>

text \<open>
  The parameters that \<open>BCTPYSpheres.__init__\<close> hands to its base class and that
  \<open>BCTPYSpheresEstimator.fit_transform\<close> hands to the cached function, after the
  defaults of the signature have been filled in.
\<close>

record fc_params =
  coords :: pyval
  radius :: pyval
  allow_overlap :: pyval
  agg_method :: pyval
  agg_method_params :: pyval
  cor_method :: pyval
  cor_method_params :: pyval
  fc_masks :: pyval

definition default_params :: "pyval \<Rightarrow> fc_params" where
  "default_params c =
     \<lparr>coords = c, radius = PNone, allow_overlap = PBool False, agg_method = PStr ''mean'',
      agg_method_params = PNone, cor_method = PStr ''covariance'',
      cor_method_params = PNone, fc_masks = PNone\<rparr>"

text \<open>\<open>metrics: Union[str, List[str]]\<close>.\<close>

datatype metrics_arg = MStr string | MList "string list"

record 'b bctpy_spheres =
  metrics :: "string list"
  fcs_base :: 'b

text \<open>
  \<open>BCTPYSpheres.__init__\<close>: anything that is not a list is wrapped in a one-element
  list; \<open>super_init\<close> is the constructor of the external \<open>FunctionalConnectivitySpheres\<close>.
\<close>

definition BCTPYSpheres_init ::
  "(fc_params \<Rightarrow> pyval \<Rightarrow> error + 'b) \<Rightarrow> metrics_arg \<Rightarrow> fc_params \<Rightarrow> pyval
     \<Rightarrow> error + 'b bctpy_spheres" where
  "BCTPYSpheres_init super_init metrics_in p nm =
     (let ms = (case metrics_in of MList l \<Rightarrow> l | MStr s \<Rightarrow> [s])
      in case super_init p nm of
           Inl e \<Rightarrow> Inl e
         | Inr b \<Rightarrow> Inr \<lparr>metrics = ms, fcs_base = b\<rparr>)"

text \<open>
  \<open>_metrics_dict\<close>: the registry has the single entry \<open>degrees_und\<close>; the function of
  the external \<open>bct\<close> package is a parameter.
\<close>

definition metrics_dict ::
  "(pyval \<Rightarrow> error + pyval) \<Rightarrow> string \<Rightarrow> (pyval \<Rightarrow> error + pyval) option" where
  "metrics_dict degrees_und = map_of [(''degrees_und'', degrees_und)]"

text \<open>
  Lines 145 to 148: the loop over \<open>self.metrics\<close>. Each turn looks the name up
  (\<open>KeyError\<close> when it is not registered) and then calls the metric on the graph. The
  events record every call of a metric, the second component is \<open>out_vals\<close>.
\<close>

fun metrics_loop ::
  "(string \<Rightarrow> (pyval \<Rightarrow> error + pyval) option) \<Rightarrow> pyval \<Rightarrow> string list
     \<Rightarrow> event list \<times> pyval list \<Rightarrow> event list \<times> (error + pyval list)" where
  "metrics_loop reg graph [] (evs, out_vals) = (evs, Inr out_vals)"
| "metrics_loop reg graph (t_metric # rest) (evs, out_vals) =
     (case reg t_metric of
        None \<Rightarrow> (evs, Inl (KeyError t_metric))
      | Some metric \<Rightarrow>
          (case metric graph of
             Inl e \<Rightarrow> (evs @ [MetricCall t_metric], Inl e)
           | Inr v \<Rightarrow>
               metrics_loop reg graph rest (evs @ [MetricCall t_metric], out_vals @ [v])))"

text \<open>
  \<open>BCTPYSpheres.compute\<close>; \<open>fc_compute\<close> is \<open>super().compute\<close>, the external
  functional-connectivity computation.
\<close>

definition BCTPYSpheres_compute ::
  "('b \<Rightarrow> pyval \<Rightarrow> pyval \<Rightarrow> error + pyval) \<Rightarrow> (pyval \<Rightarrow> error + pyval)
     \<Rightarrow> 'b bctpy_spheres \<Rightarrow> pyval \<Rightarrow> pyval \<Rightarrow> event list \<times> (error + pyval)" where
  "BCTPYSpheres_compute fc_compute degrees_und self inp extra_input =
     (case fc_compute (fcs_base self) inp extra_input of
        Inl e \<Rightarrow> ([Info ''Computing FC for BCTPY''], Inl e)
      | Inr conn_out \<Rightarrow>
     (case getitem conn_out ''data'' of
        Inl e \<Rightarrow> ([Info ''Computing FC for BCTPY'', Info ''Computing BCTPY markers''], Inl e)
      | Inr graph \<Rightarrow>
     (case metrics_loop (metrics_dict degrees_und) graph (metrics self)
             ([Info ''Computing FC for BCTPY'', Info ''Computing BCTPY markers''], []) of
        (evs, Inl e) \<Rightarrow> (evs, Inl e)
      | (evs, Inr out_vals) \<Rightarrow>
          (evs, Inr (PDict [(''data'', PList out_vals),
                            (''col_names'', PList (map PStr (metrics self)))])))))"

section \<open>The memoized estimator\<close>

text \<open>
  The process-wide state: the attribute \<open>_file_path\<close> of the singleton, the table and
  the statistics of the \<open>lru_cache\<close> around \<open>_compute\<close>, and the lines logged so far.
  A cache key is the positional and the keyword arguments of the call, in call order;
  with \<open>typed=True\<close> the types of the arguments belong to the key, as the constructors of
  \<open>pyval\<close> do here.
\<close>

type_synonym cache_key = "pyval list \<times> (string \<times> pyval) list"

record estimator =
  file_path :: pyval
  cache :: "(cache_key \<times> pyval) list"
  hits :: nat
  misses :: nat
  log :: "event list"

definition Estimator_init :: estimator where
  "Estimator_init = \<lparr>file_path = PNone, cache = [], hits = 0, misses = 0, log = []\<rparr>"

text \<open>The singleton instance, bound as first positional argument of a method call.\<close>

definition self_obj :: pyval where
  "self_obj = PObj 0"

fun hashable :: "pyval \<Rightarrow> bool" where
  "hashable (PList xs) = False"
| "hashable (PDict kvs) = False"
| "hashable (PArr a) = False"
| "hashable v = True"

text \<open>\<open>functools._make_key\<close> followed by the hash of the key.\<close>

definition make_key :: "pyval list \<Rightarrow> (string \<times> pyval) list \<Rightarrow> error + cache_key" where
  "make_key args kwds =
     (if list_all hashable args \<and> list_all (\<lambda>kv. hashable (snd kv)) kwds
      then Inr (args, kwds)
      else Inl (TypeError Unhashable))"

text \<open>\<open>cache_clear()\<close> empties the table and resets the statistics.\<close>

definition cache_clear :: "estimator \<Rightarrow> estimator" where
  "cache_clear st = st\<lparr>cache := [], hits := 0, misses := 0\<rparr>"

text \<open>
  The wrapper of \<open>lru_cache(maxsize=None, typed=True)\<close>: a hit returns the stored
  result; a miss counts, calls the function and stores the result only when the call
  returns.
\<close>

definition lru_cache_call ::
  "(pyval list \<Rightarrow> (string \<times> pyval) list \<Rightarrow> error + pyval) \<Rightarrow> estimator \<Rightarrow> pyval list
     \<Rightarrow> (string \<times> pyval) list \<Rightarrow> (error + pyval) \<times> estimator" where
  "lru_cache_call user_function st args kwds =
     (case make_key args kwds of
        Inl e \<Rightarrow> (Inl e, st)
      | Inr key \<Rightarrow>
          (case map_of (cache st) key of
             Some r \<Rightarrow> (Inr r, st\<lparr>hits := hits st + 1\<rparr>)
           | None \<Rightarrow>
               (case user_function args kwds of
                  Inl e \<Rightarrow> (Inl e, st\<lparr>misses := misses st + 1\<rparr>)
                | Inr r \<Rightarrow>
                    (Inr r, st\<lparr>misses := misses st + 1, cache := (key, r) # cache st\<rparr>))))"

text \<open>
  Binding the arguments of a call to the parameters of a Python function without
  \<open>*args\<close> and \<open>**kwargs\<close>: positional arguments first, then each keyword in call order
  (unknown name, or a parameter that already has a value), then the count of the
  positional arguments, then the defaults.
\<close>

fun bind_kwds ::
  "string list \<Rightarrow> (string \<times> pyval) list \<Rightarrow> (string \<times> pyval) list
     \<Rightarrow> error + (string \<times> pyval) list" where
  "bind_kwds names env [] = Inr env"
| "bind_kwds names env ((k, v) # kwds) =
     (if k \<notin> set names then Inl (TypeError (UnexpectedKeyword k))
      else if map_of env k \<noteq> None then Inl (TypeError (MultipleValues k))
      else bind_kwds names (env @ [(k, v)]) kwds)"

fun fill_defaults ::
  "(string \<times> pyval option) list \<Rightarrow> (string \<times> pyval) list \<Rightarrow> error + (string \<times> pyval) list" where
  "fill_defaults [] env = Inr []"
| "fill_defaults ((p, d) # sig) env =
     (case (case map_of env p of
              Some v \<Rightarrow> Inr v
            | None \<Rightarrow> (case d of Some dv \<Rightarrow> Inr dv | None \<Rightarrow> Inl (TypeError (MissingArgument p)))) of
        Inl e \<Rightarrow> Inl e
      | Inr v \<Rightarrow>
          (case fill_defaults sig env of
             Inl e \<Rightarrow> Inl e
           | Inr rest \<Rightarrow> Inr ((p, v) # rest)))"

definition bind_args ::
  "(string \<times> pyval option) list \<Rightarrow> pyval list \<Rightarrow> (string \<times> pyval) list
     \<Rightarrow> error + (string \<times> pyval) list" where
  "bind_args sig args kwds =
     (case bind_kwds (map fst sig) (zip (map fst sig) args) kwds of
        Inl e \<Rightarrow> Inl e
      | Inr env \<Rightarrow>
          if length sig < length args then Inl (TypeError TooManyPositional)
          else fill_defaults sig env)"

text \<open>The signature of \<open>_compute\<close>: it has neither \<open>self\<close> nor \<open>data\<close>.\<close>

definition compute_signature :: "(string \<times> pyval option) list" where
  "compute_signature =
     [(''coords'', None),
      (''radius'', Some PNone),
      (''allow_overlap'', Some (PBool False)),
      (''agg_method'', Some (PStr ''mean'')),
      (''agg_method_params'', Some PNone),
      (''cor_method'', Some (PStr ''covariance'')),
      (''cor_method_params'', Some PNone),
      (''masks'', Some PNone)]"

definition arg :: "(string \<times> pyval) list \<Rightarrow> string \<Rightarrow> pyval" where
  "arg env k = (case map_of env k of Some v \<Rightarrow> v | None \<Rightarrow> PNone)"

text \<open>
  \<open>BCTPYSpheresEstimator._compute\<close>: once its arguments are bound it builds the external
  \<open>FunctionalConnectivitySpheres\<close> and returns its \<open>fit_transform()\<close>, the parameter
  \<open>fcs\<close>.
\<close>

definition Estimator_compute ::
  "(fc_params \<Rightarrow> error + pyval) \<Rightarrow> pyval list \<Rightarrow> (string \<times> pyval) list \<Rightarrow> error + pyval" where
  "Estimator_compute fcs args kwds =
     (case bind_args compute_signature args kwds of
        Inl e \<Rightarrow> Inl e
      | Inr env \<Rightarrow>
          fcs \<lparr>coords = arg env ''coords'', radius = arg env ''radius'',
               allow_overlap = arg env ''allow_overlap'', agg_method = arg env ''agg_method'',
               agg_method_params = arg env ''agg_method_params'',
               cor_method = arg env ''cor_method'',
               cor_method_params = arg env ''cor_method_params'',
               fc_masks = arg env ''masks''\<rparr>)"

text \<open>The keyword arguments of the call \<open>self._compute(data=bold_data, coords=coords, ...)\<close>.\<close>

definition call_kwds :: "pyval \<Rightarrow> fc_params \<Rightarrow> (string \<times> pyval) list" where
  "call_kwds bold_data p =
     [(''data'', bold_data),
      (''coords'', coords p),
      (''radius'', radius p),
      (''allow_overlap'', allow_overlap p),
      (''agg_method'', agg_method p),
      (''agg_method_params'', agg_method_params p),
      (''cor_method'', cor_method p),
      (''cor_method_params'', cor_method_params p),
      (''masks'', fc_masks p)]"

text \<open>
  \<open>BCTPYSpheresEstimator.fit_transform\<close>. \<open>self._compute\<close> is the cached function
  bound to the instance, so the instance is its first positional argument.
\<close>

definition fit_transform ::
  "(fc_params \<Rightarrow> error + pyval) \<Rightarrow> estimator \<Rightarrow> pyval \<Rightarrow> fc_params
     \<Rightarrow> (error + pyval) \<times> estimator" where
  "fit_transform fcs st input_data p =
     (case getitem input_data ''path'' of
        Inl e \<Rightarrow> (Inl e, st)
      | Inr bold_path \<Rightarrow>
     (case getitem input_data ''data'' of
        Inl e \<Rightarrow> (Inl e, st)
      | Inr bold_data \<Rightarrow>
          (let st1 =
                 (if file_path st \<noteq> bold_path
                  then (cache_clear (st\<lparr>log := log st @ [InfoRemovingCache (file_path st)]\<rparr>))
                         \<lparr>file_path := bold_path\<rparr>
                  else st\<lparr>log := log st @ [InfoUsingCache (file_path st)]\<rparr>)
           in lru_cache_call (Estimator_compute fcs) st1 [self_obj] (call_kwds bold_data p))))"


section \<open>Concrete inputs\<close>

definition demo_phi :: ndarray where
  "demo_phi = of_rows [[0, pi / 2], [pi, 0]]"

definition demo_aggregation :: pyval where
  "demo_aggregation =
     PDict [(''aggregation'',
       PDict [(''data'', PArr demo_phi),
              (''col_names'', PList [PStr ''LH_Vis_1'', PStr ''RH_Vis_1''])])]"

text \<open>Collaborators that pass the aggregated array through unchanged.\<close>

definition demo_env :: "unit ipc_env" where
  "demo_env =
     \<lparr>aggregate = (\<lambda>self inp extra. Inr demo_aggregation),
      zscore = (\<lambda>v. case v of PArr a \<Rightarrow> Inr a | _ \<Rightarrow> Inl (External ''zscore'')),
      header_zooms = (\<lambda>img. Inr [2, 2, 2, 0.72]),
      butterworth = (\<lambda>a rate lp hp n. Inr a),
      hilbert_angle = (\<lambda>a. Inr a)\<rparr>"

definition demo_marker :: "unit ipc_marker" where
  "demo_marker =
     \<lparr>highpass = 0.01, lowpass = 0.1, order = 5, tr = None, masks = PNone, base = ()\<rparr>"

definition demo_input :: pyval where
  "demo_input = PDict [(''path'', PStr ''sub-01_bold.nii''), (''data'', PObj 1)]"

definition demo_conn :: pyval where
  "demo_conn =
     PDict [(''data'', PArr (of_rows [[0, 1], [1, 0]])),
            (''row_names'', PList [PStr ''seed_1'', PStr ''seed_2'']),
            (''col_names'', PList [PStr ''seed_1'', PStr ''seed_2''])]"

definition demo_fc_compute :: "unit \<Rightarrow> pyval \<Rightarrow> pyval \<Rightarrow> error + pyval" where
  "demo_fc_compute b inp extra_input = Inr demo_conn"

definition demo_degrees_und :: "pyval \<Rightarrow> error + pyval" where
  "demo_degrees_und graph = Inr (PArr \<lparr>shape = [2], elems = (\<lambda>idx. 1)\<rparr>)"

definition demo_bctpy :: "string list \<Rightarrow> unit bctpy_spheres" where
  "demo_bctpy ms = \<lparr>metrics = ms, fcs_base = ()\<rparr>"


section \<open>Facts about the phase-coherence computation\<close>

lemma phase_coherence_2d:
  assumes "shape phi = [T, R]"
  shows "\<exists>c. phase_coherence phi = Inr c \<and> shape c = [T, R, R]
           \<and> (\<forall>t i j. t < T \<longrightarrow> i < R \<longrightarrow> j < R \<longrightarrow>
                 elems c [t, i, j] = cos (elems phi [t, j] - elems phi [t, i]))"
  using assms
  by (auto simp: phase_coherence_def index_newaxis_mid_def index_newaxis_last_def
      np_subtract_def np_cos_def pad_shape_def Let_def)

lemma IPC_compute_packaged:
  assumes "conditioned_phase env self inp ex = Inr (agg, phi)"
    and "phase_coherence phi = Inr c"
    and "getitem agg ''col_names'' = Inr names"
  shows "IPC_compute env self inp ex =
           Inr (PDict [(''fc'', PDict [(''data'', PArr c), (''col_names'', names),
                                       (''row_names'', names)])])"
  using assms by (simp add: IPC_compute_def)


lemma IPC_compute_returns:
  assumes "IPC_compute env self inp ex = Inr out"
  shows "\<exists>agg phi c names. conditioned_phase env self inp ex = Inr (agg, phi)
           \<and> phase_coherence phi = Inr c \<and> getitem agg ''col_names'' = Inr names
           \<and> out = PDict [(''fc'', PDict [(''data'', PArr c), (''col_names'', names),
                                          (''row_names'', names)])]"
  using assms by (auto simp: IPC_compute_def split: sum.splits prod.splits)

lemma conditioned_phase_returns:
  assumes "conditioned_phase env self inp ex = Inr (agg, phi)"
  shows "\<exists>aggregation. aggregate env self inp ex = Inr aggregation
           \<and> getitem aggregation ''aggregation'' = Inr agg"
  using assms by (auto simp: conditioned_phase_def split: sum.splits if_splits)

lemma demo_conditioned:
  "conditioned_phase demo_env demo_marker demo_input PNone =
     Inr (PDict [(''data'', PArr demo_phi),
              (''col_names'', PList [PStr ''LH_Vis_1'', PStr ''RH_Vis_1''])], demo_phi)"
  by (simp add: conditioned_phase_def demo_env_def demo_marker_def demo_input_def
      demo_aggregation_def get_tr_def)

lemma demo_phi_shape: "shape demo_phi = [2, 2]"
  by (simp add: demo_phi_def of_rows_def)

lemma demo_IPC_compute: "\<exists>out. IPC_compute demo_env demo_marker demo_input PNone = Inr out"
proof -
  from phase_coherence_2d [OF demo_phi_shape] obtain c where
    c: "phase_coherence demo_phi = Inr c"
    by blast
  have "getitem (PDict [(''data'', PArr demo_phi),
              (''col_names'', PList [PStr ''LH_Vis_1'', PStr ''RH_Vis_1''])]) ''col_names''
        = Inr (PList [PStr ''LH_Vis_1'', PStr ''RH_Vis_1''])"
    by simp
  from IPC_compute_packaged [OF demo_conditioned c this] show ?thesis
    by blast
qed

section \<open>Phase coherence: entries, diagonal, symmetry, labels\<close>

text \<open>
  Claim C2. Whenever the conditioning step yields a phase matrix \<open>phi\<close> of shape
  (time, region) and the aggregation carries column names, \<open>compute\<close> returns a result
  whose data has shape (time, region, region) and whose entry at \<open>(t, i, j)\<close> is
  \<open>cos (phi[t, i] - phi[t, j])\<close>, for every timepoint and every ordered pair of regions.
\<close>

theorem IPC_compute_entries:
  assumes "conditioned_phase env self inp ex = Inr (agg, phi)"
    and "shape phi = [T, R]"
    and "getitem agg ''col_names'' = Inr names"
  shows "\<exists>c. IPC_compute env self inp ex =
               Inr (PDict [(''fc'', PDict [(''data'', PArr c), (''col_names'', names),
                                           (''row_names'', names)])])
           \<and> shape c = [T, R, R]
           \<and> (\<forall>t i j. t < T \<longrightarrow> i < R \<longrightarrow> j < R \<longrightarrow>
                 elems c [t, i, j] = cos (elems phi [t, i] - elems phi [t, j]))"
proof -
  from phase_coherence_2d [OF assms(2)] obtain c where
    c: "phase_coherence phi = Inr c" "shape c = [T, R, R]"
    and entries: "\<And>t i j. t < T \<Longrightarrow> i < R \<Longrightarrow> j < R \<Longrightarrow>
                   elems c [t, i, j] = cos (elems phi [t, j] - elems phi [t, i])"
    by blast
  have even: "cos (elems phi [t, j] - elems phi [t, i]) = cos (elems phi [t, i] - elems phi [t, j])"
    for t i j
    using cos_minus [of "elems phi [t, i] - elems phi [t, j]"] by simp
  from IPC_compute_packaged [OF assms(1) c(1) assms(3)] c(2) entries even
  show ?thesis by auto
qed

text \<open>Two timepoints and two regions, with phases \<open>0, pi/2\<close> and \<open>pi, 0\<close>.\<close>

theorem IPC_compute_entries_witness:
  "\<exists>c. IPC_compute demo_env demo_marker demo_input PNone =
         Inr (PDict [(''fc'', PDict [(''data'', PArr c),
                 (''col_names'', PList [PStr ''LH_Vis_1'', PStr ''RH_Vis_1'']),
                 (''row_names'', PList [PStr ''LH_Vis_1'', PStr ''RH_Vis_1''])])])
     \<and> shape c = [2, 2, 2]
     \<and> elems c [0, 0, 1] = 0 \<and> elems c [1, 0, 1] = - 1 \<and> elems c [1, 1, 1] = 1"
proof -
  have names: "getitem (PDict [(''data'', PArr demo_phi),
              (''col_names'', PList [PStr ''LH_Vis_1'', PStr ''RH_Vis_1''])]) ''col_names''
        = Inr (PList [PStr ''LH_Vis_1'', PStr ''RH_Vis_1''])"
    by simp
  from IPC_compute_entries [OF demo_conditioned demo_phi_shape names]
  obtain c where c: "IPC_compute demo_env demo_marker demo_input PNone =
         Inr (PDict [(''fc'', PDict [(''data'', PArr c),
                 (''col_names'', PList [PStr ''LH_Vis_1'', PStr ''RH_Vis_1'']),
                 (''row_names'', PList [PStr ''LH_Vis_1'', PStr ''RH_Vis_1''])])])"
      "shape c = [2, 2, 2]"
      and e: "\<And>t i j. t < 2 \<Longrightarrow> i < 2 \<Longrightarrow> j < 2 \<Longrightarrow>
                 elems c [t, i, j] = cos (elems demo_phi [t, i] - elems demo_phi [t, j])"
    by blast
  have "elems c [0, 0, 1] = 0" "elems c [1, 0, 1] = - 1" "elems c [1, 1, 1] = 1"
    using e [of 0 0 1] e [of 1 0 1] e [of 1 1 1]
    by (simp_all add: demo_phi_def of_rows_def)
  with c show ?thesis by blast
qed






text \<open>
  Claim C9. In every result of \<open>compute\<close> the row names and the column names under
  \<open>fc\<close> are both the column names that the aggregation step returned.
\<close>

theorem IPC_compute_row_names:
  assumes "IPC_compute env self inp ex = Inr out"
  shows "\<exists>aggregation agg fc names.
           aggregate env self inp ex = Inr aggregation
         \<and> getitem aggregation ''aggregation'' = Inr agg
         \<and> getitem agg ''col_names'' = Inr names
         \<and> getitem out ''fc'' = Inr fc
         \<and> getitem fc ''row_names'' = Inr names
         \<and> getitem fc ''col_names'' = Inr names"
proof -
  from IPC_compute_returns [OF assms] obtain agg phi c names where
    cond: "conditioned_phase env self inp ex = Inr (agg, phi)"
    and names: "getitem agg ''col_names'' = Inr names"
    and out: "out = PDict [(''fc'', PDict [(''data'', PArr c), (''col_names'', names),
                                           (''row_names'', names)])]"
    by blast
  from conditioned_phase_returns [OF cond] obtain aggregation where
    "aggregate env self inp ex = Inr aggregation"
    "getitem aggregation ''aggregation'' = Inr agg"
    by blast
  with names out show ?thesis by simp
qed

text \<open>The labels of the example.\<close>

theorem IPC_compute_row_names_witness:
  "\<exists>out fc. IPC_compute demo_env demo_marker demo_input PNone = Inr out
     \<and> getitem out ''fc'' = Inr fc
     \<and> getitem fc ''row_names'' = Inr (PList [PStr ''LH_Vis_1'', PStr ''RH_Vis_1''])
     \<and> getitem fc ''col_names'' = Inr (PList [PStr ''LH_Vis_1'', PStr ''RH_Vis_1''])"
proof -
  from demo_IPC_compute obtain out where
    out: "IPC_compute demo_env demo_marker demo_input PNone = Inr out"
    by blast
  from IPC_compute_row_names [OF out] obtain aggregation agg fc names where
    a: "aggregate demo_env demo_marker demo_input PNone = Inr aggregation"
    "getitem aggregation ''aggregation'' = Inr agg"
    "getitem agg ''col_names'' = Inr names"
    and f: "getitem out ''fc'' = Inr fc" "getitem fc ''row_names'' = Inr names"
    "getitem fc ''col_names'' = Inr names"
    by blast
  from a have "names = PList [PStr ''LH_Vis_1'', PStr ''RH_Vis_1'']"
    by (auto simp: demo_env_def demo_aggregation_def)
  with out f show ?thesis by blast
qed

section \<open>Construction of the phase-coherence marker\<close>

text \<open>
  Claim C3. With a base-class constructor that accepts the marker, construction raises
  \<open>ValueError\<close> exactly when \<open>highpass < 0\<close>, \<open>lowpass \<le> 0\<close>, \<open>order \<le> 0\<close> or
  \<open>highpass \<ge> lowpass\<close>, and succeeds for every \<open>0 \<le> highpass < lowpass\<close> with
  \<open>order > 0\<close>. The error is raised before the base-class constructor runs, and every
  marker that exists satisfies the constraints, so nothing is left to check at compute
  time.
\<close>

theorem IPC_init_validation:
  assumes "base_init ''BOLD'' nm = Inr b"
  shows "((\<exists>msg. IPC_init base_init hp lp ord mks t nm = Inl (ValueError msg))
            \<longleftrightarrow> (hp < 0 \<or> lp \<le> 0 \<or> ord \<le> 0 \<or> lp \<le> hp))
       \<and> (0 \<le> hp \<and> hp < lp \<and> 0 < ord \<longrightarrow>
            IPC_init base_init hp lp ord mks t nm =
              Inr \<lparr>highpass = hp, lowpass = lp, order = ord, tr = t, masks = mks, base = b\<rparr>)
       \<and> (hp < 0 \<or> lp \<le> 0 \<or> ord \<le> 0 \<or> lp \<le> hp \<longrightarrow>
            (\<forall>other_init. IPC_init other_init hp lp ord mks t nm
                            = IPC_init base_init hp lp ord mks t nm))
       \<and> (\<forall>m. IPC_init base_init hp lp ord mks t nm = Inr m \<longrightarrow>
            0 \<le> highpass m \<and> highpass m < lowpass m \<and> 0 < lowpass m \<and> 0 < order m)"
  using assms by (auto simp: IPC_init_def)

text \<open>A valid band and a band with equal cut-offs.\<close>

theorem IPC_init_validation_witness:
  "IPC_init (\<lambda>on nm. Inr ()) 0.01 0.1 5 PNone None PNone =
     Inr \<lparr>highpass = 0.01, lowpass = 0.1, order = 5, tr = None, masks = PNone, base = ()\<rparr>
   \<and> (\<exists>msg. IPC_init (\<lambda>on nm. Inr ()) 0.1 0.1 5 PNone None PNone = Inl (ValueError msg))"
proof -
  have b: "(\<lambda>on nm. Inr ()) ''BOLD'' PNone = (Inr () :: error + unit)"
    by simp
  have "(0::real) \<le> 0.01 \<and> (0.01::real) < 0.1 \<and> (0::int) < 5"
    by simp
  with IPC_init_validation [OF b, of "0.01" "0.1" 5 PNone None]
  have ok: "IPC_init (\<lambda>on nm. Inr ()) 0.01 0.1 5 PNone None PNone =
     Inr \<lparr>highpass = 0.01, lowpass = 0.1, order = 5, tr = None, masks = PNone, base = ()\<rparr>"
    by blast
  have "(0.1::real) < 0 \<or> (0.1::real) \<le> 0 \<or> (5::int) \<le> 0 \<or> (0.1::real) \<le> 0.1"
    by simp
  with IPC_init_validation [OF b, of "0.1" "0.1" 5 PNone None]
  have "\<exists>msg. IPC_init (\<lambda>on nm. Inr ()) 0.1 0.1 5 PNone None PNone = Inl (ValueError msg)"
    by blast
  with ok show ?thesis by blast
qed

section \<open>The graph-metric marker: unknown names, result fields, single names\<close>

text \<open>
  The loop stops at the first name without an entry in the registry; the metrics listed
  before it have been called by then.
\<close>

lemma metrics_loop_unknown:
  assumes "\<And>m. m \<in> set pre \<Longrightarrow> \<exists>f v. reg m = Some f \<and> f graph = Inr v"
    and "reg u = None"
  shows "metrics_loop reg graph (pre @ u # post) (evs, out_vals)
           = (evs @ map MetricCall pre, Inl (KeyError u))"
  using assms
proof (induction pre arbitrary: evs out_vals)
  case Nil
  then show ?case by simp
next
  case (Cons m pre)
  from Cons.prems(1) [of m] obtain f v where f: "reg m = Some f" "f graph = Inr v"
    by auto
  have "metrics_loop reg graph (pre @ u # post) (evs @ [MetricCall m], out_vals @ [v])
          = ((evs @ [MetricCall m]) @ map MetricCall pre, Inl (KeyError u))"
    using Cons.prems by (intro Cons.IH) auto
  with f show ?case by simp
qed

lemma metrics_dict_lookup:
  "metrics_dict d m = (if m = ''degrees_und'' then Some d else None)"
  by (simp add: metrics_dict_def)

text \<open>
  Claim C6, as amended. When the functional-connectivity computation of the base class
  returns a dictionary with a \<open>data\<close> entry and \<open>degrees_und\<close> evaluates on it, a metric
  list whose first unregistered name is \<open>u\<close> makes \<open>compute\<close> raise \<open>KeyError u\<close> and
  return no result; every registered metric listed before \<open>u\<close> has been evaluated by
  then, once each and in order.
\<close>

theorem BCTPYSpheres_compute_unknown_metric:
  assumes "fc_compute (fcs_base self) inp ex = Inr conn_out"
    and "getitem conn_out ''data'' = Inr graph"
    and "metrics self = pre @ u # post"
    and "set pre \<subseteq> {''degrees_und''}"
    and "u \<noteq> ''degrees_und''"
    and "degrees_und graph = Inr v"
  shows "BCTPYSpheres_compute fc_compute degrees_und self inp ex
           = ([Info ''Computing FC for BCTPY'', Info ''Computing BCTPY markers'']
                @ map MetricCall pre,
              Inl (KeyError u))"
proof -
  have pre: "\<exists>f w. metrics_dict degrees_und m = Some f \<and> f graph = Inr w" if "m \<in> set pre" for m
    using that assms(4,6) by (auto simp: metrics_dict_lookup)
  have u: "metrics_dict degrees_und u = None"
    using assms(5) by (simp add: metrics_dict_lookup)
  from metrics_loop_unknown [of pre "metrics_dict degrees_und" graph u, OF pre u]
  show ?thesis
    using assms(1,2,3) by (simp add: BCTPYSpheres_compute_def)
qed

text \<open>Two registered names before an unregistered one.\<close>

theorem BCTPYSpheres_compute_unknown_metric_witness:
  "BCTPYSpheres_compute demo_fc_compute demo_degrees_und
       (demo_bctpy [''degrees_und'', ''degrees_und'', ''strengths_und'', ''degrees_und''])
       demo_input PNone
     = ([Info ''Computing FC for BCTPY'', Info ''Computing BCTPY markers'',
         MetricCall ''degrees_und'', MetricCall ''degrees_und''],
        Inl (KeyError ''strengths_und''))"
  using BCTPYSpheres_compute_unknown_metric [of demo_fc_compute
      "demo_bctpy [''degrees_und'', ''degrees_und'', ''strengths_und'', ''degrees_und'']"
      demo_input PNone demo_conn "PArr (of_rows [[0, 1], [1, 0]])"
      "[''degrees_und'', ''degrees_und'']" "''strengths_und''" "[''degrees_und'']"
      demo_degrees_und "PArr \<lparr>shape = [2], elems = (\<lambda>idx. 1)\<rparr>"]
  by (simp add: demo_fc_compute_def demo_bctpy_def demo_conn_def demo_degrees_und_def)

text \<open>
  Claim C6 as stated fails: with \<open>["degrees_und", "strengths_und"]\<close> the registered metric
  is evaluated before the lookup of the second name raises; and when the
  functional-connectivity computation itself raises, that error is the one that surfaces.
\<close>

theorem BCTPYSpheres_compute_partial_counterexample:
  "BCTPYSpheres_compute demo_fc_compute demo_degrees_und
       (demo_bctpy [''degrees_und'', ''strengths_und'']) demo_input PNone
     = ([Info ''Computing FC for BCTPY'', Info ''Computing BCTPY markers'',
         MetricCall ''degrees_und''],
        Inl (KeyError ''strengths_und''))
   \<and> MetricCall ''degrees_und'' \<in> set (fst (BCTPYSpheres_compute demo_fc_compute
         demo_degrees_und (demo_bctpy [''degrees_und'', ''strengths_und'']) demo_input PNone))
   \<and> BCTPYSpheres_compute (\<lambda>b inp extra. Inl (External ''no BOLD data'')) demo_degrees_und
       (demo_bctpy [''strengths_und'']) demo_input PNone
     = ([Info ''Computing FC for BCTPY''], Inl (External ''no BOLD data''))"
  by (simp add: BCTPYSpheres_compute_def demo_fc_compute_def demo_bctpy_def demo_conn_def
      demo_degrees_und_def metrics_dict_def)

text \<open>
  Claim C8 fails on the graph-metric marker: every result that \<open>BCTPYSpheres.compute\<close>
  returns has exactly the keys \<open>data\<close> and \<open>col_names\<close>; reading \<open>row_names\<close> raises
  \<open>KeyError\<close>, although the docstring of the method lists \<open>row_names\<close> among the keys.
\<close>

theorem BCTPYSpheres_compute_no_row_names:
  assumes "snd (BCTPYSpheres_compute fc_compute degrees_und self inp ex) = Inr out"
  shows "getitem out ''row_names'' = Inl (KeyError ''row_names'')
       \<and> (\<exists>out_vals. out = PDict [(''data'', PList out_vals),
                                   (''col_names'', PList (map PStr (metrics self)))])"
  using assms
  by (auto simp: BCTPYSpheres_compute_def split: sum.splits prod.splits)

text \<open>The result for the single metric \<open>degrees_und\<close>.\<close>

theorem BCTPYSpheres_compute_no_row_names_witness:
  "snd (BCTPYSpheres_compute demo_fc_compute demo_degrees_und (demo_bctpy [''degrees_und''])
          demo_input PNone)
     = Inr (PDict [(''data'', PList [PArr \<lparr>shape = [2], elems = (\<lambda>idx. 1)\<rparr>]),
                   (''col_names'', PList [PStr ''degrees_und''])])
   \<and> getitem (PDict [(''data'', PList [PArr \<lparr>shape = [2], elems = (\<lambda>idx. 1)\<rparr>]),
                     (''col_names'', PList [PStr ''degrees_und''])]) ''row_names''
     = Inl (KeyError ''row_names'')"
proof -
  have r: "snd (BCTPYSpheres_compute demo_fc_compute demo_degrees_und
                 (demo_bctpy [''degrees_und'']) demo_input PNone)
     = Inr (PDict [(''data'', PList [PArr \<lparr>shape = [2], elems = (\<lambda>idx. 1)\<rparr>]),
                   (''col_names'', PList [PStr ''degrees_und''])])"
    by (simp add: BCTPYSpheres_compute_def demo_fc_compute_def demo_bctpy_def demo_conn_def
        demo_degrees_und_def metrics_dict_def)
  from BCTPYSpheres_compute_no_row_names [OF r] r show ?thesis
    by blast
qed

text \<open>
  Claim C10. Constructing the graph-metric marker with a single name as a plain string
  gives the same outcome as constructing it with the one-element list of that name; the
  stored \<open>metrics\<close> is that list, and \<open>compute\<close> behaves identically on the two markers.
\<close>

theorem BCTPYSpheres_init_single_name:
  "BCTPYSpheres_init super_init (MStr s) p nm = BCTPYSpheres_init super_init (MList [s]) p nm
   \<and> (\<forall>m. BCTPYSpheres_init super_init (MStr s) p nm = Inr m \<longrightarrow> metrics m = [s])
   \<and> (\<forall>m1 m2. BCTPYSpheres_init super_init (MStr s) p nm = Inr m1 \<longrightarrow>
                BCTPYSpheres_init super_init (MList [s]) p nm = Inr m2 \<longrightarrow>
                BCTPYSpheres_compute fc_compute degrees_und m1 inp ex
                  = BCTPYSpheres_compute fc_compute degrees_und m2 inp ex)"
  by (auto simp: BCTPYSpheres_init_def split: sum.splits)

text \<open>Both constructions with \<open>degrees_und\<close>.\<close>

theorem BCTPYSpheres_init_single_name_witness:
  "BCTPYSpheres_init (\<lambda>p nm. Inr ()) (MStr ''degrees_und'') (default_params (PStr ''DMNBuckner'')) PNone
     = Inr (demo_bctpy [''degrees_und''])
   \<and> BCTPYSpheres_init (\<lambda>p nm. Inr ()) (MList [''degrees_und'']) (default_params (PStr ''DMNBuckner'')) PNone
     = Inr (demo_bctpy [''degrees_und''])"
proof -
  have a: "BCTPYSpheres_init (\<lambda>p nm. Inr ()) (MStr ''degrees_und'')
             (default_params (PStr ''DMNBuckner'')) PNone = Inr (demo_bctpy [''degrees_und''])"
    by (simp add: BCTPYSpheres_init_def demo_bctpy_def)
  with BCTPYSpheres_init_single_name [of "\<lambda>p nm. Inr ()" "''degrees_und''"
      "default_params (PStr ''DMNBuckner'')" PNone]
  show ?thesis by simp
qed

section \<open>The memoized estimator: what a call does\<close>

text \<open>
  The call \<open>self._compute(data=..., coords=..., ...)\<close> never reaches the body of
  \<open>_compute\<close>: the keyword \<open>data\<close> is not a parameter of the function.
\<close>

lemma Estimator_compute_rejects:
  "Estimator_compute fcs [self_obj] (call_kwds bold_data p)
     = Inl (TypeError (UnexpectedKeyword ''data''))"
  by (simp add: Estimator_compute_def bind_args_def compute_signature_def call_kwds_def)

text \<open>A call of the cached function that raises leaves the table as it was.\<close>

lemma lru_cache_call_failure:
  assumes "lru_cache_call f st args kwds = (Inl e, st')"
  shows "cache st' = cache st \<and> hits st' = hits st \<and> file_path st' = file_path st
       \<and> log st' = log st"
  using assms by (auto simp: lru_cache_call_def split: sum.splits option.splits)

lemma lru_cache_call_empty:
  assumes "cache st = []"
  shows "lru_cache_call (Estimator_compute fcs) st [self_obj] (call_kwds bold_data p)
           = (case make_key [self_obj] (call_kwds bold_data p) of
                Inl e \<Rightarrow> (Inl e, st)
              | Inr key \<Rightarrow> (Inl (TypeError (UnexpectedKeyword ''data'')),
                             st\<lparr>misses := misses st + 1\<rparr>))"
  using assms
  by (simp add: lru_cache_call_def Estimator_compute_rejects split: sum.splits)



lemma fit_transform_path_error:
  assumes "getitem inp ''path'' = Inl e"
  shows "fit_transform fcs st inp p = (Inl e, st)"
  using assms by (simp add: fit_transform_def)

lemma fit_transform_data_error:
  assumes "getitem inp ''path'' = Inr bold_path" and "getitem inp ''data'' = Inl e"
  shows "fit_transform fcs st inp p = (Inl e, st)"
  using assms by (simp add: fit_transform_def)



text \<open>
  What the identity check does: a different path empties the table, records the new path
  and logs that the cache is removed; the same path logs that the cache is used and
  leaves the table alone.
\<close>

lemma fit_transform_identity_change:
  assumes "getitem inp ''path'' = Inr bold_path"
    and "getitem inp ''data'' = Inr bold_data"
    and "file_path st \<noteq> bold_path"
    and "fit_transform fcs st inp p = (res, st')"
  shows "cache st' = [] \<and> file_path st' = bold_path
       \<and> log st' = log st @ [InfoRemovingCache (file_path st)] \<and> (\<exists>e. res = Inl e)"
  using assms
  by (auto simp: fit_transform_def Let_def lru_cache_call_empty cache_clear_def
      split: sum.splits)

lemma fit_transform_same_identity:
  assumes "getitem inp ''path'' = Inr bold_path"
    and "getitem inp ''data'' = Inr bold_data"
    and "file_path st = bold_path"
    and "fit_transform fcs st inp p = (Inl e, st')"
  shows "cache st' = cache st \<and> file_path st' = bold_path
       \<and> log st' = log st @ [InfoUsingCache (file_path st)]"
proof -
  from assms have "lru_cache_call (Estimator_compute fcs)
         (st\<lparr>log := log st @ [InfoUsingCache (file_path st)]\<rparr>) [self_obj]
         (call_kwds bold_data p) = (Inl e, st')"
    by (simp add: fit_transform_def)
  from lru_cache_call_failure [OF this] assms(3) show ?thesis by simp
qed

lemma fit_transform_failure_keeps_table:
  assumes "fit_transform fcs st inp p = (Inl e, st1)"
  shows "cache st1 = cache st \<or> cache st1 = []"
proof (cases "getitem inp ''path''")
  case (Inl e')
  from fit_transform_path_error [OF Inl, of fcs st p] assms show ?thesis by simp
next
  case path: (Inr bold_path)
  show ?thesis
  proof (cases "getitem inp ''data''")
    case (Inl e')
    from fit_transform_data_error [OF path Inl, of fcs st p] assms show ?thesis by simp
  next
    case data: (Inr bold_data)
    show ?thesis
    proof (cases "file_path st = bold_path")
      case True
      from fit_transform_same_identity [OF path data True assms] show ?thesis by simp
    next
      case False
      from fit_transform_identity_change [OF path data False assms] show ?thesis by simp
    qed
  qed
qed

lemma demo_make_key:
  "make_key [self_obj] (call_kwds (PObj n) (default_params (PStr c)))
     = Inr ([self_obj], call_kwds (PObj n) (default_params (PStr c)))"
  by (simp add: make_key_def self_obj_def call_kwds_def default_params_def)

text \<open>
  Claim C1 fails on the code. Two successive calls on a new estimator with the same input
  and the same parameters both raise \<open>TypeError\<close> for the keyword \<open>data\<close>, whatever
  the wrapped transformation \<open>fcs\<close> is: no result is returned, nothing is stored, and the
  second call counts as a miss again. The first call logs that the cache is removed and
  records the path, the second logs that the cache is used.
\<close>

theorem fit_transform_raises:
  "fit_transform fcs Estimator_init demo_input (default_params (PStr ''DMNBuckner''))
     = (Inl (TypeError (UnexpectedKeyword ''data'')),
        \<lparr>file_path = PStr ''sub-01_bold.nii'', cache = [], hits = 0, misses = 1,
         log = [InfoRemovingCache PNone]\<rparr>)
   \<and> fit_transform fcs
        \<lparr>file_path = PStr ''sub-01_bold.nii'', cache = [], hits = 0, misses = 1,
         log = [InfoRemovingCache PNone]\<rparr>
        demo_input (default_params (PStr ''DMNBuckner''))
     = (Inl (TypeError (UnexpectedKeyword ''data'')),
        \<lparr>file_path = PStr ''sub-01_bold.nii'', cache = [], hits = 0, misses = 2,
         log = [InfoRemovingCache PNone, InfoUsingCache (PStr ''sub-01_bold.nii'')]\<rparr>)"
  by (simp add: fit_transform_def demo_input_def Estimator_init_def cache_clear_def
      lru_cache_call_empty demo_make_key)



end
